theory Spec2Isabelle
  imports Complex_Main "HOL-Library.Sublist" "HOL-Library.Product_Lexorder"
    "HOL-Library.Multiset"
begin

section \<open>Strings\<close>

text \<open>
  Python text and byte strings are both modelled as \<open>string\<close> (a list of characters).
  \<open>startswith\<close> and \<open>endswith\<close> are the methods of the same name, \<open>str_in q s\<close>
  is the containment test \<^verbatim>\<open>q in s\<close> on two strings.
\<close>

fun startswith :: "string \<Rightarrow> string \<Rightarrow> bool" where
  "startswith s [] = True"
| "startswith [] (p # ps) = False"
| "startswith (c # cs) (p # ps) = (c = p \<and> startswith cs ps)"

definition endswith :: "string \<Rightarrow> string \<Rightarrow> bool" where
  "endswith s suf = startswith (rev s) (rev suf)"

fun str_in :: "string \<Rightarrow> string \<Rightarrow> bool" where
  "str_in q [] = (q = [])"
| "str_in q (c # cs) = (startswith (c # cs) q \<or> str_in q cs)"

section \<open>Data model of the search\<close>

text \<open>
  A calendar date is the triple (year, month, day), ordered lexicographically as
  \<^verbatim>\<open>datetime.date\<close> is.
\<close>

type_synonym date = "nat \<times> nat \<times> nat"

text \<open>
  A descriptor of one log file, as \<^verbatim>\<open>find_log_files\<close> returns it. The search reads the
  three attributes \<^verbatim>\<open>filename\<close>, \<^verbatim>\<open>date\<close> and \<^verbatim>\<open>link\<close>.
\<close>

record LogFile =
  filename :: string
  date :: date
  link :: string

text \<open>
  The parser yields rows \<^verbatim>\<open>(timestamp, event, info)\<close>. The shape of \<^verbatim>\<open>info\<close> is fixed by
  the event tag: a pair \<^verbatim>\<open>(nick, text)\<close> for \<^verbatim>\<open>COMMENT\<close>, a triple
  \<^verbatim>\<open>(text, oldnick, newnick)\<close> for \<^verbatim>\<open>NICKCHANGE\<close>, a text for any other tag. Tag and
  payload are one value of a tagged union; \<open>Other tag text\<close> carries a tag that is neither
  \<^verbatim>\<open>COMMENT\<close> nor \<^verbatim>\<open>NICKCHANGE\<close>.
\<close>

datatype event =
    Comment string string
  | NickChange string string string
  | Other string string

type_synonym row = "string \<times> event"

record SearchStats =
  files :: int
  lines :: int
  matches :: int

text \<open>A new \<^verbatim>\<open>SearchStats()\<close>: the three class attributes are 0.\<close>

definition SearchStats_new :: SearchStats where
  "SearchStats_new = \<lparr>files = 0, lines = 0, matches = 0\<rparr>"

record SearchResult =
  r_filename :: string
  r_link :: string
  r_date :: date
  r_time :: string
  r_event :: event

section \<open>Output of the presenter\<close>

text \<open>
  What reaches the output stream, in order: a \<^verbatim>\<open>print(s, file=stream)\<close> of a string the
  program builds is \<open>Print s\<close>; \<open>Prefix\<close> and \<open>Suffix\<close> are the prints of the table
  style's \<^verbatim>\<open>prefix\<close> and \<^verbatim>\<open>suffix\<close> attributes (\<^verbatim>\<open>print_prefix\<close>, \<^verbatim>\<open>print_suffix\<close>);
  the two calls into the table style are \<open>Nicktext\<close> (time, nick, text, colour, link) and
  \<open>Servermsg\<close> (time, event tag, text, link).
\<close>

datatype out =
    Print string
  | Prefix
  | Suffix
  | Nicktext string string string string string
  | Servermsg string string string string

section \<open>Capabilities the program calls but does not define\<close>

text \<open>
  The builtins, library calls and the functions of the sibling modules
  \<^verbatim>\<open>irclog2html\<close> and \<^verbatim>\<open>logs2html\<close> that the two source files call. Every operation
  of the program takes them as one parameter \<open>X\<close>; \<open>'c\<close> is the state of a
  \<^verbatim>\<open>NickColourizer\<close>.
  \<^item> \<open>lower\<close>: \<^verbatim>\<open>str.lower\<close>;
  \<^item> \<open>find_log_files\<close>: \<^verbatim>\<open>find_log_files(directory, pattern)\<close>;
  \<^item> \<open>open_log_file\<close>, \<open>LogParser\<close>: the contents of a log file, and the rows the parser
    yields for them;
  \<^item> \<open>DEFAULT_LOGFILE_PATH\<close>: \<^verbatim>\<open>os.path.dirname(__file__)\<close>;
  \<^item> \<open>escape\<close>, \<open>quote\<close>: HTML and URL quoting; \<open>strftime\<close>: \<^verbatim>\<open>strftime('%Y-%m-%d (%A)')\<close>
    of a date;
  \<^item> \<open>VERSION\<close>, \<open>RELEASE\<close>, \<open>CSS_FILE\<close>: constants of \<^verbatim>\<open>irclog2html\<close>;
  \<^item> \<open>NickColourizer\<close>: a new colourizer; \<open>nick_colour_getitem\<close>: \<^verbatim>\<open>nick_colour[nick]\<close>,
    the colour and the colourizer after the lookup; \<open>nick_colour_change\<close>:
    \<^verbatim>\<open>nick_colour.change(oldnick, newnick)\<close>;
  \<^item> \<open>total_time\<close>: the value of \<^verbatim>\<open>time.time() - started\<close>, a finite float and so a
    rational number;
  \<^item> \<open>open_rb\<close>: \<^verbatim>\<open>open(path, "rb")\<close> followed by \<^verbatim>\<open>read()\<close>, \<open>None\<close> when it raises
    \<^verbatim>\<open>IOError\<close>;
  \<^item> \<open>LogParser_decode\<close>, \<open>encode_utf8\<close>: \<^verbatim>\<open>LogParser.decode\<close> and
    \<^verbatim>\<open>.encode('UTF-8')\<close>;
  \<^item> \<open>convert_irc_log\<close>: the bytes \<^verbatim>\<open>convert_irc_log\<close> writes for a log's contents, a
    title, three pairs of navigation links and the \<^verbatim>\<open>searchbox\<close> flag;
  \<^item> \<open>FieldStorage\<close>: the form fields \<^verbatim>\<open>cgi.FieldStorage\<close> reads from a request;
  \<^item> \<open>getvalue\<close>: the bytes in the buffer of the ASCII text stream after the given
    output.
\<close>

record 'c externals =
  lower :: "string \<Rightarrow> string"
  find_log_files :: "string \<Rightarrow> string \<Rightarrow> LogFile list"
  open_log_file :: "string \<Rightarrow> string"
  LogParser :: "string \<Rightarrow> row list"
  DEFAULT_LOGFILE_PATH :: string
  escape :: "string \<Rightarrow> string"
  quote :: "string \<Rightarrow> string"
  strftime :: "date \<Rightarrow> string"
  VERSION :: string
  RELEASE :: string
  CSS_FILE :: string
  NickColourizer :: 'c
  nick_colour_getitem :: "'c \<Rightarrow> string \<Rightarrow> string \<times> 'c"
  nick_colour_change :: "'c \<Rightarrow> string \<Rightarrow> string \<Rightarrow> 'c"
  total_time :: rat
  open_rb :: "string \<Rightarrow> string option"
  LogParser_decode :: "string \<Rightarrow> string"
  encode_utf8 :: "string \<Rightarrow> string"
  convert_irc_log ::
    "string \<Rightarrow> string \<Rightarrow> string \<times> string \<Rightarrow> string \<times> string \<Rightarrow> string \<times> string \<Rightarrow> bool \<Rightarrow> string"
  FieldStorage :: "(string \<rightharpoonup> string) \<Rightarrow> (string \<rightharpoonup> string)"
  getvalue :: "out list \<Rightarrow> string"

section \<open>The search engine (irclogsearch.py)\<close>

definition DEFAULT_LOGFILE_PATTERN :: string where
  "DEFAULT_LOGFILE_PATTERN = ''*.log''"

text \<open>\<^verbatim>\<open>parse_log_file\<close>: the rows of the parser over the opened file.\<close>

definition parse_log_file :: "'c externals \<Rightarrow> string \<Rightarrow> row list" where
  "parse_log_file X fname = LogParser X (open_log_file X fname)"

text \<open>
  \<^verbatim>\<open>search_irc_logs\<close> is a generator that updates \<^verbatim>\<open>stats\<close> while it is consumed. Its
  model returns what one complete run shows: the results in the order they are yielded,
  each with the value of \<^verbatim>\<open>stats\<close> at that suspension point, and the value of
  \<^verbatim>\<open>stats\<close> once the generator is exhausted. \<open>scan_rows\<close> is the inner loop over the rows
  of one file, \<open>scan_files\<close> the outer loop over the files.
\<close>

fun scan_rows ::
  "'c externals \<Rightarrow> string \<Rightarrow> LogFile \<Rightarrow> SearchStats \<Rightarrow> row list
    \<Rightarrow> (SearchResult \<times> SearchStats) list \<times> SearchStats" where
  "scan_rows X query f stats [] = ([], stats)"
| "scan_rows X query f stats ((timestamp, ev) # rows) =
     (let text = (case ev of
                    Comment nick text \<Rightarrow> nick @ '' '' @ text
                  | NickChange text oldnick newnick \<Rightarrow> text
                  | Other tag info \<Rightarrow> info);
          stats = stats\<lparr>lines := lines stats + 1\<rparr>
      in if str_in query (lower X text)
         then (let stats = stats\<lparr>matches := matches stats + 1\<rparr>;
                   rest = scan_rows X query f stats rows
               in ((\<lparr>r_filename = filename f, r_link = link f, r_date = date f,
                      r_time = timestamp, r_event = ev\<rparr>, stats) # fst rest, snd rest))
         else scan_rows X query f stats rows)"

fun scan_files ::
  "'c externals \<Rightarrow> string \<Rightarrow> SearchStats \<Rightarrow> LogFile list
    \<Rightarrow> (SearchResult \<times> SearchStats) list \<times> SearchStats" where
  "scan_files X query stats [] = ([], stats)"
| "scan_files X query stats (f # fs) =
     (let stats = stats\<lparr>files := files stats + 1\<rparr>;
          here = scan_rows X query f stats (parse_log_file X (filename f));
          rest = scan_files X query (snd here) fs
      in (fst here @ fst rest, snd rest))"

text \<open>
  \<^verbatim>\<open>if not where\<close> holds for \<^verbatim>\<open>None\<close> and for the empty string; an instance of
  \<^verbatim>\<open>SearchStats\<close> is always true, so \<^verbatim>\<open>if not stats\<close> holds for \<^verbatim>\<open>None\<close> only.
\<close>

definition or_default :: "string option \<Rightarrow> string \<Rightarrow> string" where
  "or_default v d = (case v of None \<Rightarrow> d | Some s \<Rightarrow> if s = [] then d else s)"

definition log_files :: "'c externals \<Rightarrow> string option \<Rightarrow> string option \<Rightarrow> LogFile list" where
  "log_files X wher logfile_pattern =
     rev (find_log_files X (or_default wher (DEFAULT_LOGFILE_PATH X))
                           (or_default logfile_pattern DEFAULT_LOGFILE_PATTERN))"

definition search_irc_logs ::
  "'c externals \<Rightarrow> string \<Rightarrow> SearchStats option \<Rightarrow> string option \<Rightarrow> string option
    \<Rightarrow> (SearchResult \<times> SearchStats) list \<times> SearchStats" where
  "search_irc_logs X query stats wher logfile_pattern =
     (let stats = (case stats of None \<Rightarrow> SearchStats_new | Some s \<Rightarrow> s);
          query = lower X query;
          files = log_files X wher logfile_pattern
      in scan_files X query stats files)"

text \<open>The results of a search, in the order they are yielded.\<close>

definition results ::
  "'c externals \<Rightarrow> string \<Rightarrow> SearchStats option \<Rightarrow> string option \<Rightarrow> string option
    \<Rightarrow> SearchResult list" where
  "results X query stats wher logfile_pattern =
     map fst (fst (search_irc_logs X query stats wher logfile_pattern))"

section \<open>The presenter (irclogsearch.py)\<close>

text \<open>\<^verbatim>\<open>"\n".join(ls)\<close>, for the constants that span several lines.\<close>

fun join_lines :: "string list \<Rightarrow> string" where
  "join_lines [] = []"
| "join_lines [l] = l"
| "join_lines (l # ls) = l @ [CHR 0x0A] @ join_lines ls"

definition HEADER :: "'c externals \<Rightarrow> string" where
  \<open>HEADER X = join_lines
    [''<!DOCTYPE html PUBLIC "-//W3C//DTD XHTML 1.0 Strict//EN"'',
     ''          "http://www.w3.org/TR/xhtml1/DTD/xhtml1-strict.dtd">'',
     ''<html>'',
     ''<head>'',
     ''  <meta http-equiv="Content-Type" content="text/html; charset='' @ ''UTF-8'' @ ''" />'',
     ''  <title>'' @ escape X ''Search IRC logs'' @ ''</title>'',
     ''  <link rel="stylesheet" href="irclog.css" />'',
     ''  <meta name="generator" content="irclogsearch.py '' @ VERSION X
        @ '' by Marius Gedminas" />'',
     ''  <meta name="version" content="'' @ VERSION X @ '' - '' @ RELEASE X @ ''" />'',
     ''</head>'',
     ''<body>'']\<close>

definition FOOTER :: "'c externals \<Rightarrow> string" where
  \<open>FOOTER X = join_lines
    [[],
     ''<div class="generatedby">'',
     ''<p>Generated by irclogsearch.py '' @ VERSION X
        @ '' by <a href="mailto:marius@pov.lt">Marius Gedminas</a>'',
     '' - find it at <a href="http://mg.pov.lt/irclog2html/">mg.pov.lt</a>!</p>'',
     ''</div>'',
     ''</body>'',
     ''</html>'']\<close>

text \<open>The conversions \<^verbatim>\<open>%d\<close> and \<^verbatim>\<open>%.1f\<close> of the statistics line.\<close>

definition digit_char :: "nat \<Rightarrow> char" where
  "digit_char n = ''0123456789'' ! (n mod 10)"

function show_nat :: "nat \<Rightarrow> string" where
  "show_nat n = (if n < 10 then [digit_char n] else show_nat (n div 10) @ [digit_char n])"
  by pat_completeness auto
termination
  by (relation "measure id") auto

declare show_nat.simps [simp del]

definition show_int :: "int \<Rightarrow> string" where
  "show_int i = (if i < 0 then ''-'' @ show_nat (nat (- i)) else show_nat (nat i))"

text \<open>
  \<^verbatim>\<open>'%.1f' % x\<close> is the decimal numeral with one digit after the point that is nearest to
  the value of the float \<open>x\<close>, the even one of two that are equally near, with the sign of
  \<open>x\<close>.
\<close>

definition round_half_even :: "rat \<Rightarrow> int" where
  "round_half_even x =
     (let f = \<lfloor>x\<rfloor>; d = x - of_int f
      in if d < 1 / 2 then f else if 1 / 2 < d then f + 1 else if even f then f else f + 1)"

definition fmt_1f :: "rat \<Rightarrow> string" where
  "fmt_1f x =
     (let t = nat (round_half_even (\<bar>x\<bar> * 10))
      in (if x < 0 then ''-'' else []) @ show_nat (t div 10) @ ''.'' @ [digit_char t])"

definition urlescape :: "'c externals \<Rightarrow> string \<Rightarrow> string" where
  "urlescape X l = escape X (quote X l)"

text \<open>
  \<^verbatim>\<open>SearchResultFormatter.print_html\<close>. The formatter holds one colourizer, made in its
  constructor; \<open>nc\<close> is that colourizer before the call, and the colourizer after the call
  is returned with the output.
\<close>

definition print_html :: "'c externals \<Rightarrow> 'c \<Rightarrow> SearchResult \<Rightarrow> out list \<times> 'c" where
  "print_html X nc result =
     (let link = urlescape X (r_link result)
      in case r_event result of
           Comment nick text \<Rightarrow>
             (let got = nick_colour_getitem X nc nick
              in ([Nicktext (r_time result) nick text (fst got) link], snd got))
         | NickChange text oldnick newnick \<Rightarrow>
             ([Servermsg (r_time result) ''NICKCHANGE'' text link],
              nick_colour_change X nc oldnick newnick)
         | Other tag text \<Rightarrow> ([Servermsg (r_time result) tag text link], nc))"

definition ul_open :: string where
  \<open>ul_open = ''<ul class="searchresults">''\<close>

definition li_open :: "'c externals \<Rightarrow> SearchResult \<Rightarrow> string" where
  \<open>li_open X result =
     ''  <li><a href="'' @ urlescape X (r_link result) @ ''">''
       @ strftime X (r_date result) @ ''</a>:''\<close>

text \<open>
  The loop of \<^verbatim>\<open>print_search_results\<close> over the results. Its state is the variables
  \<^verbatim>\<open>date\<close> (here \<open>cur_date\<close>) and \<^verbatim>\<open>prev_result\<close>, \<open>None\<close> as in the source (a date and
  a search result are always true), and the colourizer of the formatter.
\<close>

fun results_loop ::
  "'c externals \<Rightarrow> date option \<Rightarrow> SearchResult option \<Rightarrow> 'c \<Rightarrow> SearchResult list
    \<Rightarrow> out list \<times> date option \<times> SearchResult option \<times> 'c" where
  "results_loop X cur_date prev_result nc [] = ([], cur_date, prev_result, nc)"
| "results_loop X cur_date prev_result nc (result # rest) =
     (let changed = (cur_date \<noteq> Some (r_date result));
          o1 = (if changed
                then (if prev_result \<noteq> None then [Suffix] else [])
                     @ (if cur_date \<noteq> None then [Print ''  </li>''] else [Print ul_open])
                     @ [Print (li_open X result)]
                else []);
          prev_result = (if changed then None else prev_result);
          cur_date = (if changed then Some (r_date result) else cur_date);
          o2 = (if prev_result = None then [Prefix] else []);
          html = print_html X nc result;
          more = results_loop X cur_date (Some result) (snd html) rest
      in (o1 @ o2 @ fst html @ fst more, snd more))"

definition page_top :: "'c externals \<Rightarrow> string \<Rightarrow> out list" where
  \<open>page_top X query =
     [Print (HEADER X),
      Print (''<h1>IRC log search results for '' @ escape X query @ ''</h1>''),
      Print ''<form action="" method="get">'',
      Print (''<input type="text" name="q" value="'' @ escape X query @ ''" />''),
      Print ''<input type="submit" />'',
      Print ''</form>'']\<close>

definition stats_line :: "'c externals \<Rightarrow> SearchStats \<Rightarrow> string" where
  "stats_line X stats =
     ''<p>'' @ show_int (matches stats) @ '' matches in '' @ show_int (files stats)
       @ '' log files with '' @ show_int (lines stats) @ '' lines (''
       @ fmt_1f (total_time X) @ '' seconds).</p>''"

text \<open>
  What \<^verbatim>\<open>print_search_results\<close> prints between the form and the statistics line: the
  output of the loop, then the closing of what is still open.
\<close>

definition results_markup :: "'c externals \<Rightarrow> SearchResult list \<Rightarrow> out list \<times> 'c" where
  "results_markup X rs =
     (let loop = results_loop X None None (NickColourizer X) rs;
          cur_date = fst (snd loop);
          prev_result = fst (snd (snd loop))
      in (fst loop
          @ (if prev_result \<noteq> None then [Suffix] else [])
          @ (if cur_date \<noteq> None then [Print ''  </li>'', Print ''</ul>''] else []),
          snd (snd (snd loop))))"

text \<open>
  \<^verbatim>\<open>print_search_results\<close> returns the formatter; the model returns the output and the
  colourizer of the returned formatter.
\<close>

definition print_search_results ::
  "'c externals \<Rightarrow> string \<Rightarrow> string option \<Rightarrow> string option \<Rightarrow> out list \<times> 'c" where
  "print_search_results X query wher logfile_pattern =
     (let run = search_irc_logs X query (Some SearchStats_new) wher logfile_pattern;
          markup = results_markup X (map fst (fst run));
          stats = snd run
      in (page_top X query @ fst markup @ [Print (stats_line X stats), Print (FOOTER X)],
          snd markup))"

definition print_search_form :: "'c externals \<Rightarrow> out list" where
  \<open>print_search_form X =
     [Print (HEADER X),
      Print ''<h1>Search IRC logs</h1>'',
      Print ''<form action="" method="get">'',
      Print ''<input type="text" name="q" />'',
      Print ''<input type="submit" />'',
      Print ''</form>'',
      Print (FOOTER X)]\<close>

text \<open>\<^verbatim>\<open>search_page\<close>: the output it writes to the stream.\<close>

definition search_page ::
  "'c externals \<Rightarrow> (string \<rightharpoonup> string) \<Rightarrow> string \<Rightarrow> string \<Rightarrow> out list" where
  "search_page X form wher logfile_pattern =
     (case form ''q'' of
        None \<Rightarrow> print_search_form X
      | Some search_text \<Rightarrow>
          fst (print_search_results X search_text (Some wher) (Some logfile_pattern)))"

section \<open>The request handlers (irclogserver.py, irclogsearch.py)\<close>

text \<open>
  A handler calls \<^verbatim>\<open>start_response(status, headers)\<close> once and returns \<^verbatim>\<open>result\<close>, a list of
  byte strings: these three values are its response. \<^verbatim>\<open>headers\<close> is the sorted list of the
  pairs of a dictionary whose keys are \<^verbatim>\<open>Content-Type\<close> and, in one branch,
  \<^verbatim>\<open>Location\<close>. An exception that leaves the handler is an \<open>error\<close>. The accesses to the
  file system are recorded in the order they are made: a directory listing by
  \<^verbatim>\<open>find_log_files\<close>, or a file that is opened.
\<close>

datatype error = IOError string

datatype access = Listed string string | Opened string

record response =
  status :: string
  headers :: "(string \<times> string) list"
  body :: "string list"

definition respond :: "string \<Rightarrow> string \<Rightarrow> string option \<Rightarrow> string list \<Rightarrow> response" where
  "respond st content_type location res =
     \<lparr>status = st,
      headers = (''Content-Type'', content_type)
                # (case location of None \<Rightarrow> [] | Some l \<Rightarrow> [(''Location'', l)]),
      body = res\<rparr>"

text \<open>
  \<^verbatim>\<open>get_path\<close> is the same function in both files. \<open>environ\<close> is the dictionary of the
  request, as far as its values are strings; the input stream \<^verbatim>\<open>wsgi.input\<close>, which every
  WSGI request has, is read by \<^verbatim>\<open>cgi.FieldStorage\<close> alone. \<^verbatim>\<open>path[1:]\<close> drops the first
  character whatever it is.
\<close>

definition get_path :: "(string \<rightharpoonup> string) \<Rightarrow> string option" where
  "get_path environ =
     (let path = (case environ ''PATH_INFO'' of None \<Rightarrow> ''/'' | Some p \<Rightarrow> p);
          path = drop 1 path
      in if CHR ''/'' \<in> set path \<or> CHR 0x5C \<in> set path then None
         else Some (if path \<noteq> [] then path else ''index.html''))"

text \<open>\<^verbatim>\<open>os.path.join(a, b)\<close> of \<^verbatim>\<open>posixpath\<close>, for two components.\<close>

definition os_path_join :: "string \<Rightarrow> string \<Rightarrow> string" where
  "os_path_join a b =
     (if startswith b ''/'' then b
      else if a = [] \<or> endswith a ''/'' then a @ b
      else a @ ''/'' @ b)"

text \<open>
  \<^verbatim>\<open>bytes.splitlines(True)\<close>: the lines with their line ends, a line ending at
  \<^verbatim>\<open>\n\<close>, \<^verbatim>\<open>\r\n\<close> or \<^verbatim>\<open>\r\<close>. \<open>acc\<close> is the line read so far.
\<close>

fun splitlines_from :: "string \<Rightarrow> string \<Rightarrow> string list" where
  "splitlines_from acc [] = (if acc = [] then [] else [acc])"
| "splitlines_from acc [c] = [acc @ [c]]"
| "splitlines_from acc (c # d # cs) =
     (if c = CHR 0x0A then (acc @ [c]) # splitlines_from [] (d # cs)
      else if c = CHR 0x0D \<and> d = CHR 0x0A then (acc @ [c, d]) # splitlines_from [] cs
      else if c = CHR 0x0D then (acc @ [c]) # splitlines_from [] (d # cs)
      else splitlines_from (acc @ [c]) (d # cs))"

definition splitlines_keepends :: "string \<Rightarrow> string list" where
  "splitlines_keepends s = splitlines_from [] s"

text \<open>The accesses of \<^verbatim>\<open>search_page\<close>: none for the bare form, else the whole search.\<close>

definition search_accesses ::
  "'c externals \<Rightarrow> (string \<rightharpoonup> string) \<Rightarrow> string \<Rightarrow> string \<Rightarrow> access list" where
  "search_accesses X form wher logfile_pattern =
     (case form ''q'' of
        None \<Rightarrow> []
      | Some search_text \<Rightarrow>
          Listed (or_default (Some wher) (DEFAULT_LOGFILE_PATH X))
                 (or_default (Some logfile_pattern) DEFAULT_LOGFILE_PATTERN)
          # map (\<lambda>f. Opened (filename f)) (log_files X (Some wher) (Some logfile_pattern)))"

text \<open>\<^verbatim>\<open>irclogserver.application\<close>.\<close>

definition application ::
  "'c externals \<Rightarrow> (string \<rightharpoonup> string) \<Rightarrow> access list \<times> (error + response)" where
  "application X environ =
     (let logfile_path = or_default (environ ''IRCLOG_LOCATION'') (DEFAULT_LOGFILE_PATH X);
          logfile_pattern = or_default (environ ''IRCLOG_GLOB'') DEFAULT_LOGFILE_PATTERN;
          form = FieldStorage X environ
      in case get_path environ of
           None \<Rightarrow> ([], Inr (respond ''404 Not Found'' ''text/plain'' None [''Not found'']))
         | Some path \<Rightarrow>
             if path = ''search'' then
               (search_accesses X form logfile_path logfile_pattern,
                Inr (respond ''200 Ok'' ''text/html; charset=UTF-8'' None
                       [getvalue X (search_page X form logfile_path logfile_pattern)]))
             else if path = ''irclog.css'' then
               ([Opened (CSS_FILE X)],
                case open_rb X (CSS_FILE X) of
                  Some data \<Rightarrow> Inr (respond ''200 Ok'' ''text/css'' None [data])
                | None \<Rightarrow> Inr (respond ''404 Not Found'' ''text/plain'' None [''Not found'']))
             else
               (let full = os_path_join logfile_path path
                in case open_rb X full of
                     Some data \<Rightarrow>
                       ([Opened full],
                        Inr (if endswith path ''.css'' then
                               respond ''200 Ok'' ''text/css'' None [data]
                             else if endswith path ''.log'' \<or> endswith path ''.txt'' then
                               respond ''200 Ok'' ''text/plain; charset=UTF-8'' None
                                 (map (\<lambda>line. encode_utf8 X (LogParser_decode X line))
                                      (splitlines_keepends (concat [data])))
                             else respond ''200 Ok'' ''text/html; charset=UTF-8'' None [data]))
                   | None \<Rightarrow>
                       if path = ''index.html'' then
                         ([Opened full],
                          Inr (respond ''302 Found'' ''text/plain'' (Some ''/search'')
                                 [''Try /search'']))
                       else if endswith path ''.html'' then
                         (let title = take (length path - 5) path;
                              log = os_path_join logfile_path title
                          in case open_rb X log of
                               None \<Rightarrow> ([Opened full, Opened log], Inl (IOError log))
                             | Some data \<Rightarrow>
                                 ([Opened full, Opened log],
                                  Inr (respond ''200 Ok'' ''text/html; charset=UTF-8'' None
                                         [convert_irc_log X data title ([], []) ([], []) ([], [])
                                            True])))
                       else
                         ([Opened full],
                          Inr (respond ''404 Not Found'' ''text/plain'' None [''Not found'']))))"

text \<open>\<^verbatim>\<open>irclogsearch.wsgi\<close>.\<close>

definition wsgi ::
  "'c externals \<Rightarrow> (string \<rightharpoonup> string) \<Rightarrow> access list \<times> (error + response)" where
  "wsgi X environ =
     (let logfile_path = or_default (environ ''IRCLOG_LOCATION'') (DEFAULT_LOGFILE_PATH X);
          logfile_pattern = or_default (environ ''IRCLOG_GLOB'') DEFAULT_LOGFILE_PATTERN;
          form = FieldStorage X environ;
          content_type = ''text/html; charset=UTF-8''
      in case get_path environ of
           None \<Rightarrow> ([], Inr (respond ''404 Not Found'' content_type None [''Not found'']))
         | Some path \<Rightarrow>
             if path = ''search'' then
               (search_accesses X form logfile_path logfile_pattern,
                Inr (respond ''200 Ok'' content_type None
                       [getvalue X (search_page X form logfile_path logfile_pattern)]))
             else if path = ''irclog.css'' then
               ([Opened (CSS_FILE X)],
                case open_rb X (CSS_FILE X) of
                  Some data \<Rightarrow> Inr (respond ''200 Ok'' ''text/css'' None [data])
                | None \<Rightarrow> Inr (respond ''404 Not Found'' ''text/css'' None [''Not found'']))
             else
               (let content_type = (if endswith path ''.css'' then ''text/css'' else content_type);
                    content_type = (if endswith path ''.log'' \<or> endswith path ''.txt''
                                    then ''text/plain'' else content_type);
                    full = os_path_join logfile_path path
                in ([Opened full],
                    case open_rb X full of
                      Some data \<Rightarrow> Inr (respond ''200 Ok'' content_type None [data])
                    | None \<Rightarrow>
                        if path = ''index.html'' then
                          Inr (respond ''302 Found'' content_type (Some ''/search'')
                                 [''Try /search''])
                        else Inr (respond ''404 Not Found'' content_type None [''Not found'']))))"

section \<open>The index of log files\<close>

text \<open>
  \<^verbatim>\<open>DATE_REGEXP = re.compile('^.*(\d\d\d\d)-(\d\d)-(\d\d)')\<close>, applied with \<^verbatim>\<open>match\<close>: the
  date token that starts last in the first line of the name (\<^verbatim>\<open>.*\<close> is greedy and does
  not cross a line end), as the three numbers of its groups.
\<close>

definition is_digit :: "char \<Rightarrow> bool" where
  "is_digit c = (c \<in> set ''0123456789'')"

definition digit_value :: "char \<Rightarrow> nat" where
  "digit_value c = of_char c - 48"

definition number :: "string \<Rightarrow> nat" where
  "number ds = foldl (\<lambda>n c. 10 * n + digit_value c) 0 ds"

fun date_here :: "string \<Rightarrow> date option" where
  "date_here (y1 # y2 # y3 # y4 # s1 # m1 # m2 # s2 # d1 # d2 # rest) =
     (if list_all is_digit [y1, y2, y3, y4, m1, m2, d1, d2] \<and> s1 = CHR ''-'' \<and> s2 = CHR ''-''
      then Some (number [y1, y2, y3, y4], number [m1, m2], number [d1, d2])
      else None)"
| "date_here s = None"

fun DATE_REGEXP_match :: "string \<Rightarrow> date option" where
  "DATE_REGEXP_match [] = None"
| "DATE_REGEXP_match (c # cs) =
     (case (if c = CHR 0x0A then None else DATE_REGEXP_match cs) of
        Some d \<Rightarrow> Some d
      | None \<Rightarrow> date_here (c # cs))"

text \<open>
  Modelled from the spec: \<^verbatim>\<open>find_log_files\<close> of the module \<^verbatim>\<open>logs2html\<close>, which is not
  among the source files. The specification has the index take the file names of the
  file-set resolver, which come in no order of dates, skip the names without a date token,
  give each remaining file its date and a link, and hand the search the files newest date
  first, by sorting and reversing. The reversing is \<^verbatim>\<open>files.reverse()\<close> in
  \<^verbatim>\<open>search_irc_logs\<close>, so the sorting is oldest date first. \<open>resolver\<close> is the file-set
  resolver and \<open>link_of\<close> the link of a file name.
\<close>

definition LogFileIndex ::
  "(string \<Rightarrow> string \<Rightarrow> string list) \<Rightarrow> (string \<Rightarrow> string) \<Rightarrow> string \<Rightarrow> string \<Rightarrow> LogFile list" where
  "LogFileIndex resolver link_of directory pattern =
     sort_key date
       (List.map_filter
          (\<lambda>n. map_option (\<lambda>d. \<lparr>filename = n, date = d, link = link_of n\<rparr>) (DATE_REGEXP_match n))
          (resolver directory pattern))"

section \<open>What a search is expected to return\<close>

text \<open>
  The flattened text of an event, in the words of the specification: nick, a space and
  the text for a comment, the announcement text alone for a nick change, the text for any
  other event.
\<close>

fun flat_text :: "event \<Rightarrow> string" where
  "flat_text (Comment nick text) = nick @ '' '' @ text"
| "flat_text (NickChange text oldnick newnick) = text"
| "flat_text (Other tag text) = text"

text \<open>\<open>q\<close> is a case-insensitive substring of \<open>s\<close>.\<close>

definition contains_ci :: "'c externals \<Rightarrow> string \<Rightarrow> string \<Rightarrow> bool" where
  "contains_ci X q s = sublist (lower X q) (lower X s)"

text \<open>
  The corpus: every event of every log file, each with the file it is in, in the order the
  search goes through the files.
\<close>

definition corpus ::
  "'c externals \<Rightarrow> string option \<Rightarrow> string option \<Rightarrow> (LogFile \<times> row) list" where
  "corpus X wher logfile_pattern =
     concat (map (\<lambda>f. map (Pair f) (parse_log_file X (filename f)))
                 (log_files X wher logfile_pattern))"

text \<open>The search result that stands for an event of the corpus.\<close>

definition result_of :: "LogFile \<times> row \<Rightarrow> SearchResult" where
  "result_of e = \<lparr>r_filename = filename (fst e), r_link = link (fst e), r_date = date (fst e),
                    r_time = fst (snd e), r_event = snd (snd e)\<rparr>"

section \<open>What the presenter is expected to print\<close>

text \<open>A row of a result table: the output of one call into the table style.\<close>

fun is_row :: "out \<Rightarrow> bool" where
  "is_row (Nicktext t n x c l) = True"
| "is_row (Servermsg t e x l) = True"
| "is_row other = False"

text \<open>
  The rows for a sequence of results that are rendered one after the other with one
  colourizer, which starts as \<open>nc\<close>.
\<close>

fun render_rows :: "'c externals \<Rightarrow> 'c \<Rightarrow> SearchResult list \<Rightarrow> out list \<times> 'c" where
  "render_rows X nc [] = ([], nc)"
| "render_rows X nc (r # rs) =
     (let html = print_html X nc r;
          more = render_rows X (snd html) rs
      in (fst html @ fst more, snd more))"

text \<open>The date groups: the maximal runs of consecutive results of the same date.\<close>

fun date_groups :: "SearchResult list \<Rightarrow> SearchResult list list" where
  "date_groups [] = []"
| "date_groups (r # rs) =
     (case date_groups rs of
        (r' # g) # gs \<Rightarrow> if r_date r' = r_date r then (r # r' # g) # gs else [r] # (r' # g) # gs
      | other \<Rightarrow> [[r]])"

text \<open>The rows when every date group is rendered with a new colourizer.\<close>

definition rows_reset_per_date :: "'c externals \<Rightarrow> SearchResult list \<Rightarrow> out list" where
  "rows_reset_per_date X rs =
     concat (map (\<lambda>g. fst (render_rows X (NickColourizer X) g)) (date_groups rs))"

text \<open>
  The nesting of the markup: the list is opened at the top level only, a list item in the
  list, a table (between the prefix and the suffix of the style) in a list item, a row in
  a table; a closing closes what was opened last. \<open>nesting st os\<close> is what is open after
  the output \<open>os\<close>, innermost first, when \<open>st\<close> is open before it, and \<open>None\<close> when \<open>os\<close>
  breaks the nesting.
\<close>

datatype markup = UL | LI | TABLE

fun nesting :: "markup list \<Rightarrow> out list \<Rightarrow> markup list option" where
  "nesting st [] = Some st"
| "nesting st (Prefix # os) =
     (case st of LI # st' \<Rightarrow> nesting (TABLE # st) os | other \<Rightarrow> None)"
| "nesting st (Suffix # os) =
     (case st of TABLE # st' \<Rightarrow> nesting st' os | other \<Rightarrow> None)"
| "nesting st (Nicktext t n x c l # os) =
     (case st of TABLE # st' \<Rightarrow> nesting st os | other \<Rightarrow> None)"
| "nesting st (Servermsg t e x l # os) =
     (case st of TABLE # st' \<Rightarrow> nesting st os | other \<Rightarrow> None)"
| "nesting st (Print s # os) =
     (if startswith s ''<ul'' then (case st of [] \<Rightarrow> nesting [UL] os | other \<Rightarrow> None)
      else if startswith s ''</ul>'' then
        (case st of UL # st' \<Rightarrow> nesting st' os | other \<Rightarrow> None)
      else if startswith s ''  <li>'' then
        (case st of UL # st' \<Rightarrow> nesting (LI # st) os | other \<Rightarrow> None)
      else if startswith s ''  </li>'' then
        (case st of LI # st' \<Rightarrow> nesting st' os | other \<Rightarrow> None)
      else nesting st os)"


section \<open>What the handlers are expected to answer\<close>

text \<open>
  The inbound path of a request is \<^verbatim>\<open>PATH_INFO\<close> without its leading slash, the base
  directory is the directory of the logs.
\<close>

definition inbound_path :: "(string \<rightharpoonup> string) \<Rightarrow> string" where
  "inbound_path environ = drop 1 (case environ ''PATH_INFO'' of None \<Rightarrow> ''/'' | Some p \<Rightarrow> p)"

definition base_directory :: "'c externals \<Rightarrow> (string \<rightharpoonup> string) \<Rightarrow> string" where
  "base_directory X environ = or_default (environ ''IRCLOG_LOCATION'') (DEFAULT_LOGFILE_PATH X)"

definition has_separator :: "string \<Rightarrow> bool" where
  "has_separator path = (CHR ''/'' \<in> set path \<or> CHR 0x5C \<in> set path)"

text \<open>The value of the \<^verbatim>\<open>Content-Type\<close> header of a response.\<close>

definition content_type_of :: "error + response \<Rightarrow> string option" where
  "content_type_of r = (case r of Inl e \<Rightarrow> None | Inr a \<Rightarrow> map_of (headers a) ''Content-Type'')"

definition status_of :: "error + response \<Rightarrow> string option" where
  "status_of r = (case r of Inl e \<Rightarrow> None | Inr a \<Rightarrow> Some (status a))"

text \<open>
  The content type that the specification gives a file that exists, chosen by its
  extension.
\<close>

definition content_type_by_extension :: "string \<Rightarrow> string" where
  "content_type_by_extension path =
     (if endswith path ''.css'' then ''text/css''
      else if endswith path ''.log'' \<or> endswith path ''.txt'' then ''text/plain''
      else ''application/octet-stream'')"

section \<open>A small installation for the examples\<close>

text \<open>
  Two log files of two days, a style sheet and one file that is no log; a colourizer that
  gives the nicks the colours \<open>colour1\<close>, \<open>colour2\<close>, ... in the order they first speak;
  lowering of the ASCII letters.
\<close>

definition ascii_lower :: "char \<Rightarrow> char" where
  "ascii_lower c =
     (case map_of (zip ''ABCDEFGHIJKLMNOPQRSTUVWXYZ'' ''abcdefghijklmnopqrstuvwxyz'') c of
        None \<Rightarrow> c
      | Some l \<Rightarrow> l)"

definition demo_getitem ::
  "(string \<times> string) list \<Rightarrow> string \<Rightarrow> string \<times> (string \<times> string) list" where
  "demo_getitem nc nick =
     (case map_of nc nick of
        Some c \<Rightarrow> (c, nc)
      | None \<Rightarrow> (''colour'' @ show_nat (length nc + 1),
                 nc @ [(nick, ''colour'' @ show_nat (length nc + 1))]))"

definition demo_change ::
  "(string \<times> string) list \<Rightarrow> string \<Rightarrow> string \<Rightarrow> (string \<times> string) list" where
  "demo_change nc oldnick newnick =
     (case map_of nc oldnick of
        None \<Rightarrow> nc
      | Some c \<Rightarrow> filter (\<lambda>p. fst p \<noteq> oldnick \<and> fst p \<noteq> newnick) nc @ [(newnick, c)])"

definition day1 :: LogFile where
  "day1 = \<lparr>filename = ''/logs/chan.2024-01-01.log'', date = (2024, 1, 1),
           link = ''chan.2024-01-01.log.html''\<rparr>"

definition day2 :: LogFile where
  "day2 = \<lparr>filename = ''/logs/chan.2024-01-02.log'', date = (2024, 1, 2),
           link = ''chan.2024-01-02.log.html''\<rparr>"

definition demo_rows :: "string \<Rightarrow> row list" where
  "demo_rows contents =
     (if contents = ''day one'' then
        [(''10:00'', Comment ''alice'' ''Hello world''),
         (''10:05'', Other ''JOIN'' ''bob has joined'')]
      else if contents = ''day two'' then
        [(''09:00'', Comment ''bob'' ''hello ALICE''),
         (''09:30'', NickChange ''bob is now known as rob'' ''bob'' ''rob'')]
      else [])"

definition demo_files :: "(string \<times> string) list" where
  "demo_files =
     [(''/logs/chan.2024-01-01.log'', ''day one''),
      (''/logs/chan.2024-01-02.log'', ''day two''),
      (''/logs/notes.bin'', ''raw''),
      (''/logs/extra.css'', ''p {}''),
      (''/pkg/irclog.css'', ''a {}'')]"

definition demo_form :: "(string \<rightharpoonup> string) \<Rightarrow> (string \<rightharpoonup> string)" where
  "demo_form environ =
     (case environ ''QUERY_STRING'' of
        None \<Rightarrow> Map.empty
      | Some s \<Rightarrow> if startswith s ''q='' then [''q'' \<mapsto> drop 2 s] else Map.empty)"

definition demo :: "(string \<times> string) list externals" where
  "demo =
     \<lparr>lower = map ascii_lower,
      find_log_files = (\<lambda>directory pattern. if directory = ''/logs'' then [day1, day2] else []),
      open_log_file = (\<lambda>n. case map_of demo_files n of None \<Rightarrow> [] | Some d \<Rightarrow> d),
      LogParser = demo_rows,
      DEFAULT_LOGFILE_PATH = ''/logs'',
      escape = (\<lambda>s. s),
      quote = (\<lambda>s. s),
      strftime = (\<lambda>d. show_nat (fst d) @ ''-'' @ show_nat (fst (snd d)) @ ''-''
                       @ show_nat (snd (snd d))),
      VERSION = ''2.15'',
      RELEASE = ''2014'',
      CSS_FILE = ''/pkg/irclog.css'',
      NickColourizer = [],
      nick_colour_getitem = demo_getitem,
      nick_colour_change = demo_change,
      total_time = 1 / 4,
      open_rb = map_of demo_files,
      LogParser_decode = (\<lambda>s. s),
      encode_utf8 = (\<lambda>s. s),
      convert_irc_log = (\<lambda>data title prev index next searchbox. ''<html>'' @ data @ ''</html>''),
      FieldStorage = demo_form,
      getvalue = (\<lambda>os. concat (map (\<lambda>x. case x of Print s \<Rightarrow> s | other \<Rightarrow> ''<tr>'') os))\<rparr>"

text \<open>Two file-set resolvers: one returns its names in no order, one two names of one day.\<close>

definition unsorted_resolver :: "string \<Rightarrow> string \<Rightarrow> string list" where
  "unsorted_resolver directory pattern =
     [''b.2024-01-02.log'', ''notes.log'', ''a.2024-01-01.log'', ''c.2024-01-03.log'']"

definition same_day_resolver :: "string \<Rightarrow> string \<Rightarrow> string list" where
  "same_day_resolver directory pattern = [''a.2024-01-01.log'', ''b.2024-01-01.log'']"

section \<open>Properties of the search engine\<close>

lemma startswith_prefix: "startswith s p = prefix p s"
  by (induction s p rule: startswith.induct) auto

lemma str_in_sublist: "str_in q s = sublist q s"
  by (induction s) (auto simp: startswith_prefix sublist_Cons_right)

lemma scan_text_flat:
  "(case ev of Comment nick text \<Rightarrow> nick @ '' '' @ text
     | NickChange text oldnick newnick \<Rightarrow> text | Other tag info \<Rightarrow> info) = flat_text ev"
  by (cases ev) simp_all

subsection \<open>The inner loop\<close>

lemma scan_rows_results:
  "map fst (fst (scan_rows X q f st rows)) =
     map (\<lambda>r. result_of (f, r)) (filter (\<lambda>r. sublist q (lower X (flat_text (snd r)))) rows)"
  by (induction rows arbitrary: st)
     (auto simp: Let_def str_in_sublist result_of_def scan_text_flat)

lemma scan_rows_lines: "lines (snd (scan_rows X q f st rows)) = lines st + int (length rows)"
  by (induction rows arbitrary: st) (auto simp: Let_def)

lemma scan_rows_files: "files (snd (scan_rows X q f st rows)) = files st"
  by (induction rows arbitrary: st) (auto simp: Let_def)

lemma scan_rows_matches:
  "matches (snd (scan_rows X q f st rows)) =
     matches st + int (length (fst (scan_rows X q f st rows)))"
  by (induction rows arbitrary: st) (auto simp: Let_def)

text \<open>Counting up from \<open>m + 1\<close>, one step and two runs put together.\<close>

lemma upt_0_Suc_shift: "[0..<Suc n] = 0 # map Suc [0..<n]"
  by (simp add: upt_conv_Cons map_Suc_upt del: upt_Suc)

lemma count_from_Cons:
  "map (\<lambda>k. (m::int) + 1 + int k) [0..<Suc n] =
     (m + 1) # map (\<lambda>k. (m + 1) + 1 + int k) [0..<n]"
  unfolding upt_0_Suc_shift by (simp add: comp_def)

lemma count_from_append:
  "map (\<lambda>k. (m::int) + 1 + int k) [0..<a + b] =
     map (\<lambda>k. m + 1 + int k) [0..<a] @ map (\<lambda>k. (m + int a) + 1 + int k) [0..<b]"
proof (induction a arbitrary: m)
  case 0
  then show ?case by simp
next
  case (Suc a)
  have "map (\<lambda>k. m + 1 + int k) [0..<Suc a + b] = map (\<lambda>k. m + 1 + int k) [0..<Suc (a + b)]"
    by simp
  also have "\<dots> = (m + 1) # map (\<lambda>k. (m + 1) + 1 + int k) [0..<a + b]"
    by (rule count_from_Cons)
  also have "\<dots> = (m + 1) # (map (\<lambda>k. (m + 1) + 1 + int k) [0..<a]
                        @ map (\<lambda>k. ((m + 1) + int a) + 1 + int k) [0..<b])"
    using Suc[of "m + 1"] by simp
  also have "\<dots> = map (\<lambda>k. m + 1 + int k) [0..<Suc a]
                      @ map (\<lambda>k. ((m + 1) + int a) + 1 + int k) [0..<b]"
    using count_from_Cons[of m a] by simp
  also have "((m + 1) + int a) = m + int (Suc a)" by simp
  finally show ?case .
qed

text \<open>At the suspension after the \<open>k\<close>-th result of a file, \<open>matches\<close> has grown by \<open>k\<close>.\<close>

lemma scan_rows_snapshots:
  "map (\<lambda>p. matches (snd p)) (fst (scan_rows X q f st rows)) =
     map (\<lambda>k. matches st + 1 + int k) [0..<length (fst (scan_rows X q f st rows))]"
proof (induction rows arbitrary: st)
  case Nil
  then show ?case by simp
next
  case (Cons r rows)
  obtain t ev where r: "r = (t, ev)" by (cases r)
  show ?case
  proof (cases "str_in q (lower X (flat_text ev))")
    case False
    then show ?thesis using Cons r by (simp add: Let_def scan_text_flat)
  next
    case True
    let ?st = "st\<lparr>lines := lines st + 1, matches := matches st + 1\<rparr>"
    let ?ys = "fst (scan_rows X q f ?st rows)"
    have m: "matches ?st = matches st + 1" by simp
    have ys: "fst (scan_rows X q f st (r # rows)) =
              (\<lparr>r_filename = filename f, r_link = link f, r_date = date f,
                 r_time = t, r_event = ev\<rparr>, ?st) # ?ys"
      using r True by (simp add: Let_def scan_text_flat)
    have "map (\<lambda>p. matches (snd p)) (fst (scan_rows X q f st (r # rows))) =
          (matches st + 1) # map (\<lambda>p. matches (snd p)) ?ys"
      unfolding ys by simp
    also have "\<dots> = (matches st + 1) # map (\<lambda>k. (matches st + 1) + 1 + int k) [0..<length ?ys]"
      using Cons[of ?st] unfolding m by simp
    also have "\<dots> = map (\<lambda>k. matches st + 1 + int k) [0..<Suc (length ?ys)]"
      by (rule count_from_Cons[symmetric])
    also have "Suc (length ?ys) = length (fst (scan_rows X q f st (r # rows)))"
      unfolding ys by simp
    finally show ?thesis .
  qed
qed

subsection \<open>The outer loop\<close>

lemma scan_files_results:
  "map fst (fst (scan_files X q st fs)) =
     map result_of (filter (\<lambda>e. sublist q (lower X (flat_text (snd (snd e)))))
        (concat (map (\<lambda>f. map (Pair f) (parse_log_file X (filename f))) fs)))"
  by (induction fs arbitrary: st)
     (simp_all add: Let_def scan_rows_results filter_map comp_def)

lemma scan_files_files: "files (snd (scan_files X q st fs)) = files st + int (length fs)"
  by (induction fs arbitrary: st) (simp_all add: Let_def scan_rows_files)

lemma scan_files_lines:
  "lines (snd (scan_files X q st fs)) =
     lines st + int (length (concat (map (\<lambda>f. map (Pair f) (parse_log_file X (filename f))) fs)))"
  by (induction fs arbitrary: st) (simp_all add: Let_def scan_rows_lines)

lemma scan_files_matches:
  "matches (snd (scan_files X q st fs)) =
     matches st + int (length (fst (scan_files X q st fs)))"
  by (induction fs arbitrary: st) (simp_all add: Let_def scan_rows_matches)

lemma scan_files_snapshots:
  "map (\<lambda>p. matches (snd p)) (fst (scan_files X q st fs)) =
     map (\<lambda>k. matches st + 1 + int k) [0..<length (fst (scan_files X q st fs))]"
proof (induction fs arbitrary: st)
  case Nil
  then show ?case by simp
next
  case (Cons f fs)
  let ?st = "st\<lparr>files := files st + 1\<rparr>"
  let ?here = "scan_rows X q f ?st (parse_log_file X (filename f))"
  let ?rest = "scan_files X q (snd ?here) fs"
  have ys: "fst (scan_files X q st (f # fs)) = fst ?here @ fst ?rest"
    by (simp add: Let_def)
  have m: "matches (snd ?here) = matches st + int (length (fst ?here))"
    by (simp add: scan_rows_matches)
  have h: "map (\<lambda>p. matches (snd p)) (fst ?here) =
           map (\<lambda>k. matches st + 1 + int k) [0..<length (fst ?here)]"
    using scan_rows_snapshots[of X q f ?st] by simp
  have r: "map (\<lambda>p. matches (snd p)) (fst ?rest) =
           map (\<lambda>k. (matches st + int (length (fst ?here))) + 1 + int k)
               [0..<length (fst ?rest)]"
    using Cons[of "snd ?here"] unfolding m .
  have "map (\<lambda>p. matches (snd p)) (fst (scan_files X q st (f # fs))) =
        map (\<lambda>p. matches (snd p)) (fst ?here) @ map (\<lambda>p. matches (snd p)) (fst ?rest)"
    unfolding ys by simp
  also have "\<dots> = map (\<lambda>k. matches st + 1 + int k)
                        [0..<length (fst ?here) + length (fst ?rest)]"
    unfolding h r by (rule count_from_append[symmetric])
  also have "length (fst ?here) + length (fst ?rest) = length (fst (scan_files X q st (f # fs)))"
    unfolding ys by simp
  finally show ?case .
qed

subsection \<open>The demo corpus\<close>

lemma demo_lower: "lower demo = map ascii_lower"
  by (simp add: demo_def)

lemma demo_lower_Nil: "lower demo [] = []"
  by (simp add: demo_def)

lemma demo_corpus:
  "corpus demo None None =
     [(day2, ''09:00'', Comment ''bob'' ''hello ALICE''),
      (day2, ''09:30'', NickChange ''bob is now known as rob'' ''bob'' ''rob''),
      (day1, ''10:00'', Comment ''alice'' ''Hello world''),
      (day1, ''10:05'', Other ''JOIN'' ''bob has joined'')]"
  by (simp add: corpus_def log_files_def or_default_def demo_def parse_log_file_def
      demo_files_def demo_rows_def day1_def day2_def DEFAULT_LOGFILE_PATTERN_def)

subsection \<open>The results of a search\<close>

text \<open>
  Claim C1. For every query and every corpus, the results of \<open>search_irc_logs\<close> are the
  results for exactly the events of the corpus whose flattened text (nick, space and text
  of a comment; the announcement text of a nick change; the text of any other event)
  contains the query as a case-insensitive substring, in the order of the corpus: every
  result satisfies the containment and no event that satisfies it is left out. The empty
  query is not a special case: as the empty string in lower case is the empty string, it
  matches every event.
\<close>

theorem search_irc_logs_exact:
  "results X q st w p =
     map result_of (filter (\<lambda>e. contains_ci X q (flat_text (snd (snd e)))) (corpus X w p))
   \<and> (lower X [] = [] \<longrightarrow> results X [] st w p = map result_of (corpus X w p))"
proof -
  have a: "\<And>q. results X q st w p =
     map result_of (filter (\<lambda>e. contains_ci X q (flat_text (snd (snd e)))) (corpus X w p))"
    by (simp add: results_def search_irc_logs_def scan_files_results contains_ci_def corpus_def)
  have "lower X [] = [] \<Longrightarrow> results X [] st w p = map result_of (corpus X w p)"
    unfolding a by (simp add: contains_ci_def)
  with a show ?thesis by blast
qed

theorem search_irc_logs_exact_witness:
  "lower demo [] = []
   \<and> map r_time (results demo [] None None None) = [''09:00'', ''09:30'', ''10:00'', ''10:05'']
   \<and> map r_time (results demo ''HELLO'' None None None) = [''09:00'', ''10:00'']"
proof -
  have h: "lower demo [] = []" by (rule demo_lower_Nil)
  from search_irc_logs_exact[of demo "[]" None None None] h
  have "results demo [] None None None = map result_of (corpus demo None None)" by blast
  then have a: "map r_time (results demo [] None None None) =
                [''09:00'', ''09:30'', ''10:00'', ''10:05'']"
    by (simp add: demo_corpus result_of_def)
  from search_irc_logs_exact[of demo "''HELLO''" None None None]
  have "results demo ''HELLO'' None None None =
        map result_of (filter (\<lambda>e. contains_ci demo ''HELLO'' (flat_text (snd (snd e))))
                              (corpus demo None None))"
    by blast
  then have b: "map r_time (results demo ''HELLO'' None None None) = [''09:00'', ''10:00'']"
    unfolding demo_corpus contains_ci_def demo_lower
    by (simp add: result_of_def str_in_sublist[symmetric] ascii_lower_def)
  from h a b show ?thesis by blast
qed

text \<open>
  Claim C10. The results of \<open>search_irc_logs\<close> do not depend on the \<open>stats\<close> argument: for
  every query, directory and pattern, the call with \<open>stats=None\<close> and the call with any
  statistics object of the caller yield the same results in the same order.
\<close>

theorem results_independent_of_stats: "results X q None w p = results X q (Some st) w p"
  by (simp add: results_def search_irc_logs_def scan_files_results)

text \<open>
  Claim C4. When a search that was started with a new statistics object is exhausted,
  \<open>matches \<le> lines\<close>, \<open>lines\<close> is the number of events in all the files that were scanned,
  \<open>files\<close> is the number of files in the index, and \<open>matches\<close> is the number of results; at
  the suspension point of the \<open>k\<close>-th result, \<open>matches\<close> is \<open>k\<close>, the number of results
  yielded so far.
\<close>

theorem search_stats_counts:
  "matches (snd (search_irc_logs X q (Some SearchStats_new) w p))
     \<le> lines (snd (search_irc_logs X q (Some SearchStats_new) w p))
   \<and> lines (snd (search_irc_logs X q (Some SearchStats_new) w p)) = int (length (corpus X w p))
   \<and> files (snd (search_irc_logs X q (Some SearchStats_new) w p)) = int (length (log_files X w p))
   \<and> matches (snd (search_irc_logs X q (Some SearchStats_new) w p)) =
        int (length (results X q (Some SearchStats_new) w p))
   \<and> map (\<lambda>y. matches (snd y)) (fst (search_irc_logs X q (Some SearchStats_new) w p)) =
        map int [1..<Suc (length (results X q (Some SearchStats_new) w p))]"
proof -
  let ?fs = "log_files X w p"
  let ?run = "scan_files X (lower X q) SearchStats_new ?fs"
  have run: "search_irc_logs X q (Some SearchStats_new) w p = ?run"
    by (simp add: search_irc_logs_def)
  have res: "results X q (Some SearchStats_new) w p = map fst (fst ?run)"
    by (simp add: results_def run)
  have l: "lines (snd ?run) = int (length (corpus X w p))"
    by (simp add: scan_files_lines corpus_def SearchStats_new_def)
  have f: "files (snd ?run) = int (length ?fs)"
    by (simp add: scan_files_files SearchStats_new_def)
  have m: "matches (snd ?run) = int (length (fst ?run))"
    by (simp add: scan_files_matches SearchStats_new_def)
  have "length (map fst (fst ?run)) \<le> length (corpus X w p)"
    unfolding scan_files_results corpus_def by simp
  then have le: "matches (snd ?run) \<le> lines (snd ?run)"
    unfolding l m by simp
  have "map (\<lambda>y. matches (snd y)) (fst ?run) = map (\<lambda>k. 0 + 1 + int k) [0..<length (fst ?run)]"
    using scan_files_snapshots[of X "lower X q" SearchStats_new ?fs]
    by (simp add: SearchStats_new_def)
  also have "\<dots> = map int (map Suc [0..<length (fst ?run)])"
    by (simp add: comp_def)
  also have "\<dots> = map int [1..<Suc (length (fst ?run))]"
    by (simp add: map_Suc_upt del: upt_Suc)
  finally have s: "map (\<lambda>y. matches (snd y)) (fst ?run) = map int [1..<Suc (length (fst ?run))]" .
  show ?thesis unfolding run res using le l f m s by simp
qed

section \<open>Properties of the request handlers\<close>

lemma endswith_suffix: "endswith s suf = suffix suf s"
  by (simp add: endswith_def startswith_prefix suffix_to_prefix)

lemma get_path_inbound:
  "get_path environ =
     (if has_separator (inbound_path environ) then None
      else Some (if inbound_path environ \<noteq> [] then inbound_path environ else ''index.html''))"
  by (simp add: get_path_def inbound_path_def has_separator_def Let_def)

lemma application_rejects_separator:
  "has_separator (inbound_path environ) \<Longrightarrow>
   application X environ =
     ([], Inr \<lparr>status = ''404 Not Found'', headers = [(''Content-Type'', ''text/plain'')],
               body = [''Not found'']\<rparr>)"
  by (simp add: application_def get_path_inbound respond_def Let_def)

lemma wsgi_rejects_separator:
  "has_separator (inbound_path environ) \<Longrightarrow>
   wsgi X environ =
     ([], Inr \<lparr>status = ''404 Not Found'',
               headers = [(''Content-Type'', ''text/html; charset=UTF-8'')],
               body = [''Not found'']\<rparr>)"
  by (simp add: wsgi_def get_path_inbound respond_def Let_def)

text \<open>
  Claim C3, at the request for \<^verbatim>\<open>/a/b\<close>: \<open>irclogsearch.wsgi\<close> rejects the path without an
  access to the file system and with status 404, but the content type of its response is
  \<^verbatim>\<open>text/html; charset=UTF-8\<close>, not \<^verbatim>\<open>text/plain\<close>.
\<close>

theorem wsgi_rejects_separator_as_html:
  "wsgi X [''PATH_INFO'' \<mapsto> ''/a/b''] =
     ([], Inr \<lparr>status = ''404 Not Found'',
               headers = [(''Content-Type'', ''text/html; charset=UTF-8'')],
               body = [''Not found'']\<rparr>)"
  by (rule wsgi_rejects_separator) (simp add: has_separator_def inbound_path_def)

lemma application_file_branch:
  assumes "get_path environ = Some path" "path \<noteq> ''search''" "path \<noteq> ''irclog.css''"
  shows "application X environ =
     (let full = os_path_join (base_directory X environ) path
                in case open_rb X full of
                     Some data \<Rightarrow>
                       ([Opened full],
                        Inr (if endswith path ''.css'' then
                               respond ''200 Ok'' ''text/css'' None [data]
                             else if endswith path ''.log'' \<or> endswith path ''.txt'' then
                               respond ''200 Ok'' ''text/plain; charset=UTF-8'' None
                                 (map (\<lambda>line. encode_utf8 X (LogParser_decode X line))
                                      (splitlines_keepends (concat [data])))
                             else respond ''200 Ok'' ''text/html; charset=UTF-8'' None [data]))
                   | None \<Rightarrow>
                       if path = ''index.html'' then
                         ([Opened full],
                          Inr (respond ''302 Found'' ''text/plain'' (Some ''/search'')
                                 [''Try /search'']))
                       else if endswith path ''.html'' then
                         (let title = take (length path - 5) path;
                              log = os_path_join (base_directory X environ) title
                          in case open_rb X log of
                               None \<Rightarrow> ([Opened full, Opened log], Inl (IOError log))
                             | Some data \<Rightarrow>
                                 ([Opened full, Opened log],
                                  Inr (respond ''200 Ok'' ''text/html; charset=UTF-8'' None
                                         [convert_irc_log X data title ([], []) ([], []) ([], [])
                                            True])))
                       else
                         ([Opened full],
                          Inr (respond ''404 Not Found'' ''text/plain'' None [''Not found''])))"
  using assms unfolding application_def base_directory_def Let_def by simp

lemma css_not_log: "endswith path ''.css'' \<Longrightarrow> \<not> (endswith path ''.log'' \<or> endswith path ''.txt'')"
  by (auto simp: endswith_suffix suffix_def)

lemma wsgi_file_branch:
  assumes "get_path environ = Some path" "path \<noteq> ''search''" "path \<noteq> ''irclog.css''"
  shows "wsgi X environ =
     ([Opened (os_path_join (base_directory X environ) path)],
      case open_rb X (os_path_join (base_directory X environ) path) of
        Some data \<Rightarrow>
          Inr (respond ''200 Ok''
                 (if endswith path ''.log'' \<or> endswith path ''.txt'' then ''text/plain''
                  else if endswith path ''.css'' then ''text/css''
                  else ''text/html; charset=UTF-8'') None [data])
      | None \<Rightarrow>
          if path = ''index.html'' then
            Inr (respond ''302 Found''
                   (if endswith path ''.log'' \<or> endswith path ''.txt'' then ''text/plain''
                    else if endswith path ''.css'' then ''text/css''
                    else ''text/html; charset=UTF-8'') (Some ''/search'') [''Try /search''])
          else Inr (respond ''404 Not Found''
                   (if endswith path ''.log'' \<or> endswith path ''.txt'' then ''text/plain''
                    else if endswith path ''.css'' then ''text/css''
                    else ''text/html; charset=UTF-8'') None [''Not found'']))"
  using assms unfolding wsgi_def base_directory_def Let_def by simp

text \<open>
  What \<open>irclogsearch.wsgi\<close> does with an existing file: the content type is
  \<^verbatim>\<open>text/css\<close>, \<^verbatim>\<open>text/plain\<close> or the default, and the body is the bytes of the file in
  every case.
\<close>

lemma wsgi_existing_file_served:
  "get_path environ = Some path \<Longrightarrow> path \<noteq> ''search'' \<Longrightarrow> path \<noteq> ''irclog.css'' \<Longrightarrow>
   open_rb X (os_path_join (base_directory X environ) path) = Some data \<Longrightarrow>
   wsgi X environ =
     ([Opened (os_path_join (base_directory X environ) path)],
      Inr \<lparr>status = ''200 Ok'',
            headers = [(''Content-Type'',
                        if endswith path ''.css'' then ''text/css''
                        else if endswith path ''.log'' \<or> endswith path ''.txt''
                             then ''text/plain''
                        else ''text/html; charset=UTF-8'')],
            body = [data]\<rparr>)"
  using css_not_log[of path]
  by (auto simp: wsgi_file_branch respond_def Let_def)

text \<open>
  Claim C6, as amended. For every path other than \<^verbatim>\<open>search\<close> and \<^verbatim>\<open>irclog.css\<close> that
  resolves to an existing file under the base directory, \<open>application\<close> opens that file
  alone and answers with status 200 and a content type chosen by the extension alone:
  \<^verbatim>\<open>text/css\<close> for \<^verbatim>\<open>.css\<close>, \<^verbatim>\<open>text/plain; charset=UTF-8\<close> for \<^verbatim>\<open>.log\<close> and \<^verbatim>\<open>.txt\<close>, the
  default \<^verbatim>\<open>text/html; charset=UTF-8\<close> otherwise. For \<^verbatim>\<open>.log\<close> and \<^verbatim>\<open>.txt\<close> the body is the
  lines of the file, each decoded by the parser's \<^verbatim>\<open>decode\<close> and encoded as UTF-8,
  otherwise the bytes of the file.
\<close>

theorem existing_file_served:
  "get_path environ = Some path \<Longrightarrow> path \<noteq> ''search'' \<Longrightarrow> path \<noteq> ''irclog.css'' \<Longrightarrow>
   open_rb X (os_path_join (base_directory X environ) path) = Some data \<Longrightarrow>
   application X environ =
     ([Opened (os_path_join (base_directory X environ) path)],
      Inr \<lparr>status = ''200 Ok'',
            headers = [(''Content-Type'',
                        if endswith path ''.css'' then ''text/css''
                        else if endswith path ''.log'' \<or> endswith path ''.txt''
                             then ''text/plain; charset=UTF-8''
                        else ''text/html; charset=UTF-8'')],
            body = (if endswith path ''.log'' \<or> endswith path ''.txt''
                    then map (\<lambda>line. encode_utf8 X (LogParser_decode X line))
                             (splitlines_keepends data)
                    else [data])\<rparr>)"
  using css_not_log[of path]
  by (auto simp: application_file_branch respond_def Let_def)

lemma demo_get_path_log:
  "get_path [''PATH_INFO'' \<mapsto> ''/chan.2024-01-01.log''] = Some ''chan.2024-01-01.log''"
  by (simp add: get_path_def)

lemma demo_base: "base_directory demo [''PATH_INFO'' \<mapsto> p] = ''/logs''"
  by (simp add: base_directory_def or_default_def demo_def)

lemma demo_open_rb: "open_rb demo = map_of demo_files"
  by (simp add: demo_def)

theorem existing_file_served_witness:
  "get_path [''PATH_INFO'' \<mapsto> ''/chan.2024-01-01.log''] = Some ''chan.2024-01-01.log''
   \<and> open_rb demo ''/logs/chan.2024-01-01.log'' = Some ''day one''
   \<and> application demo [''PATH_INFO'' \<mapsto> ''/chan.2024-01-01.log''] =
       ([Opened ''/logs/chan.2024-01-01.log''],
        Inr \<lparr>status = ''200 Ok'', headers = [(''Content-Type'', ''text/plain; charset=UTF-8'')],
              body = [''day one'']\<rparr>)"
proof -
  let ?env = "[''PATH_INFO'' \<mapsto> ''/chan.2024-01-01.log'']"
  have j: "os_path_join (base_directory demo ?env) ''chan.2024-01-01.log'' = ''/logs/chan.2024-01-01.log''"
    by (simp add: demo_base os_path_join_def endswith_def)
  have o: "open_rb demo ''/logs/chan.2024-01-01.log'' = Some ''day one''"
    by (simp add: demo_open_rb demo_files_def)
  have e: "endswith ''chan.2024-01-01.log'' ''.log''" "\<not> endswith ''chan.2024-01-01.log'' ''.css''"
    by (simp_all add: endswith_def)
  have s: "splitlines_keepends ''day one'' = [''day one'']"
    by (simp add: splitlines_keepends_def)
  have d: "LogParser_decode demo = (\<lambda>s. s)" "encode_utf8 demo = (\<lambda>s. s)"
    by (simp_all add: demo_def)
  from existing_file_served[of ?env "''chan.2024-01-01.log''" demo "''day one''"] demo_get_path_log
  show ?thesis unfolding j by (simp add: o e s d)
qed

text \<open>
  Claim C6 as stated fails: the file \<^verbatim>\<open>notes.bin\<close> exists under the base directory, its
  extension is none of \<^verbatim>\<open>.css\<close>, \<^verbatim>\<open>.log\<close>, \<^verbatim>\<open>.txt\<close>, and it is served as
  \<^verbatim>\<open>text/html; charset=UTF-8\<close>, not as an octet stream.
\<close>

theorem other_extension_not_octet_stream:
  "open_rb demo (os_path_join (base_directory demo [''PATH_INFO'' \<mapsto> ''/notes.bin'']) ''notes.bin'')
     = Some ''raw''
   \<and> content_type_of (snd (application demo [''PATH_INFO'' \<mapsto> ''/notes.bin'']))
       = Some ''text/html; charset=UTF-8''
   \<and> content_type_of (snd (application demo [''PATH_INFO'' \<mapsto> ''/notes.bin'']))
       \<noteq> Some (content_type_by_extension ''notes.bin'')"
proof -
  let ?env = "[''PATH_INFO'' \<mapsto> ''/notes.bin'']"
  have g: "get_path ?env = Some ''notes.bin''" by (simp add: get_path_def)
  have j: "os_path_join (base_directory demo ?env) ''notes.bin'' = ''/logs/notes.bin''"
    by (simp add: demo_base os_path_join_def endswith_def)
  have o: "open_rb demo ''/logs/notes.bin'' = Some ''raw''"
    by (simp add: demo_open_rb demo_files_def)
  have e: "\<not> endswith ''notes.bin'' ''.log''" "\<not> endswith ''notes.bin'' ''.css''"
          "\<not> endswith ''notes.bin'' ''.txt''"
    by (simp_all add: endswith_def)
  have "application demo ?env = ([Opened ''/logs/notes.bin''],
          Inr (respond ''200 Ok'' ''text/html; charset=UTF-8'' None [''raw'']))"
    by (simp add: application_file_branch[OF g] j o e)
  then show ?thesis
    by (simp add: j o e content_type_of_def respond_def content_type_by_extension_def)
qed

text \<open>
  Claim C7. An empty inbound path is treated exactly as the path \<^verbatim>\<open>index.html\<close>: the
  handler answers the request as it answers the request for \<^verbatim>\<open>/index.html\<close>. When
  \<^verbatim>\<open>index.html\<close> is no existing file under the base directory, the answer has status 302,
  the header \<^verbatim>\<open>Location: /search\<close> and a \<^verbatim>\<open>text/plain\<close> body.
\<close>

theorem empty_path_is_index:
  "(inbound_path environ = [] \<longrightarrow>
      get_path environ = Some ''index.html''
      \<and> application X environ = application X (environ(''PATH_INFO'' \<mapsto> ''/index.html'')))
   \<and> (get_path environ = Some ''index.html'' \<longrightarrow>
      open_rb X (os_path_join (base_directory X environ) ''index.html'') = None \<longrightarrow>
      application X environ =
        ([Opened (os_path_join (base_directory X environ) ''index.html'')],
         Inr \<lparr>status = ''302 Found'',
               headers = [(''Content-Type'', ''text/plain''), (''Location'', ''/search'')],
               body = [''Try /search'']\<rparr>))"
proof -
  have b: "base_directory X (environ(''PATH_INFO'' \<mapsto> ''/index.html'')) = base_directory X environ"
    by (simp add: base_directory_def)
  have g: "get_path (environ(''PATH_INFO'' \<mapsto> ''/index.html'')) = Some ''index.html''"
    by (simp add: get_path_def)
  have e: "inbound_path environ = [] \<Longrightarrow> get_path environ = Some ''index.html''"
    by (simp add: get_path_inbound has_separator_def)
  have "application X environ = application X (environ(''PATH_INFO'' \<mapsto> ''/index.html''))"
    if "inbound_path environ = []"
  proof -
    have p: "get_path environ = Some ''index.html''" using that by (rule e)
    have "application X environ =
          (let full = os_path_join (base_directory X environ) ''index.html''
           in case open_rb X full of
                Some data \<Rightarrow>
                  ([Opened full], Inr (respond ''200 Ok'' ''text/html; charset=UTF-8'' None [data]))
              | None \<Rightarrow>
                  ([Opened full],
                   Inr (respond ''302 Found'' ''text/plain'' (Some ''/search'') [''Try /search''])))"
      by (simp add: application_file_branch[OF p] endswith_def cong: option.case_cong)
    moreover have "application X (environ(''PATH_INFO'' \<mapsto> ''/index.html'')) =
          (let full = os_path_join (base_directory X environ) ''index.html''
           in case open_rb X full of
                Some data \<Rightarrow>
                  ([Opened full], Inr (respond ''200 Ok'' ''text/html; charset=UTF-8'' None [data]))
              | None \<Rightarrow>
                  ([Opened full],
                   Inr (respond ''302 Found'' ''text/plain'' (Some ''/search'') [''Try /search''])))"
      by (simp add: application_file_branch[OF g] b endswith_def cong: option.case_cong)
    ultimately show ?thesis by simp
  qed
  moreover have "get_path environ = Some ''index.html'' \<Longrightarrow>
      open_rb X (os_path_join (base_directory X environ) ''index.html'') = None \<Longrightarrow>
      application X environ =
        ([Opened (os_path_join (base_directory X environ) ''index.html'')],
         Inr \<lparr>status = ''302 Found'',
               headers = [(''Content-Type'', ''text/plain''), (''Location'', ''/search'')],
               body = [''Try /search'']\<rparr>)"
    by (simp add: application_file_branch respond_def)
  ultimately show ?thesis using e by blast
qed

theorem empty_path_is_index_witness:
  "inbound_path [''PATH_INFO'' \<mapsto> ''/''] = []
   \<and> open_rb demo ''/logs/index.html'' = None
   \<and> application demo [''PATH_INFO'' \<mapsto> ''/''] =
        ([Opened ''/logs/index.html''],
         Inr \<lparr>status = ''302 Found'',
               headers = [(''Content-Type'', ''text/plain''), (''Location'', ''/search'')],
               body = [''Try /search'']\<rparr>)
   \<and> application demo [''PATH_INFO'' \<mapsto> ''/''] = application demo [''PATH_INFO'' \<mapsto> ''/index.html'']"
proof -
  let ?env = "[''PATH_INFO'' \<mapsto> ''/'']"
  have i: "inbound_path ?env = []" by (simp add: inbound_path_def)
  have j: "os_path_join (base_directory demo ?env) ''index.html'' = ''/logs/index.html''"
    by (simp add: demo_base os_path_join_def endswith_def)
  have o: "open_rb demo ''/logs/index.html'' = None"
    by (simp add: demo_open_rb demo_files_def)
  have u: "?env(''PATH_INFO'' \<mapsto> ''/index.html'') = [''PATH_INFO'' \<mapsto> ''/index.html'']"
    by simp
  note c = empty_path_is_index[of ?env demo, unfolded j u]
  from c i have g: "get_path ?env = Some ''index.html''"
    and a: "application demo ?env = application demo [''PATH_INFO'' \<mapsto> ''/index.html'']"
    by blast+
  from c g o have "application demo ?env =
        ([Opened ''/logs/index.html''],
         Inr \<lparr>status = ''302 Found'',
               headers = [(''Content-Type'', ''text/plain''), (''Location'', ''/search'')],
               body = [''Try /search'']\<rparr>)"
    by blast
  with i o a show ?thesis by simp
qed

text \<open>
  A path that ends in \<^verbatim>\<open>.html\<close>, is not \<^verbatim>\<open>index.html\<close> and is no file: when the name without
  \<^verbatim>\<open>.html\<close> is a file, the answer is that log converted, as \<^verbatim>\<open>text/html\<close> with status 200;
  when it is no file either, the exception of the second \<^verbatim>\<open>open\<close> leaves the handler.
\<close>

lemma application_html_of_log:
  assumes "get_path environ = Some path" "endswith path ''.html''" "path \<noteq> ''index.html''"
    and "open_rb X (os_path_join (base_directory X environ) path) = None"
  shows "application X environ =
     ([Opened (os_path_join (base_directory X environ) path),
       Opened (os_path_join (base_directory X environ) (take (length path - 5) path))],
      case open_rb X (os_path_join (base_directory X environ) (take (length path - 5) path)) of
        None \<Rightarrow> Inl (IOError (os_path_join (base_directory X environ) (take (length path - 5) path)))
      | Some data \<Rightarrow>
          Inr \<lparr>status = ''200 Ok'', headers = [(''Content-Type'', ''text/html; charset=UTF-8'')],
                body = [convert_irc_log X data (take (length path - 5) path)
                          ([], []) ([], []) ([], []) True]\<rparr>)"
proof -
  have "path \<noteq> ''search''" "path \<noteq> ''irclog.css''"
    using assms(2) by (auto simp: endswith_def)
  then show ?thesis
    using assms by (simp add: application_file_branch respond_def Let_def split: option.split)
qed

text \<open>
  Claim C9, at the request for \<^verbatim>\<open>/nosuch.html\<close> when neither \<^verbatim>\<open>nosuch.html\<close> nor
  \<^verbatim>\<open>nosuch\<close> exists: the second \<^verbatim>\<open>open\<close> is not guarded, and \<open>application\<close> raises
  \<^verbatim>\<open>IOError\<close> where the claim has a 404 response.
\<close>

theorem missing_log_for_html_raises:
  "application demo [''PATH_INFO'' \<mapsto> ''/nosuch.html''] =
     ([Opened ''/logs/nosuch.html'', Opened ''/logs/nosuch''], Inl (IOError ''/logs/nosuch''))"
proof -
  let ?env = "[''PATH_INFO'' \<mapsto> ''/nosuch.html'']"
  have g: "get_path ?env = Some ''nosuch.html''" by (simp add: get_path_def)
  have j: "os_path_join ''/logs'' ''nosuch.html'' = ''/logs/nosuch.html''"
          "os_path_join ''/logs'' ''nosuch'' = ''/logs/nosuch''"
    by (simp_all add: os_path_join_def endswith_def)
  have o: "open_rb demo ''/logs/nosuch.html'' = None" "open_rb demo ''/logs/nosuch'' = None"
    by (simp_all add: demo_open_rb demo_files_def)
  have e: "endswith ''nosuch.html'' ''.html''" by (simp add: endswith_def)
  show ?thesis
    by (simp add: application_file_branch[OF g] demo_base j o e Let_def)
qed

section \<open>Properties of the index of log files\<close>

lemma LogFileIndex_sorted:
  "sorted_wrt (\<lambda>a b. date a \<le> date b) (LogFileIndex resolver link_of d p)"
  unfolding LogFileIndex_def using sorted_sort_key[of date] by (simp add: sorted_map)

lemma log_files_index_sorted:
  "sorted_wrt (\<lambda>a b. date b \<le> date a)
     (log_files (X\<lparr>find_log_files := LogFileIndex resolver link_of\<rparr>) w p)"
  by (simp add: log_files_def sorted_wrt_rev LogFileIndex_sorted)

lemma corpus_sorted:
  "sorted_wrt (\<lambda>a b. date b \<le> date a) fs \<Longrightarrow>
   sorted_wrt (\<lambda>a b. date (fst b) \<le> date (fst a))
     (concat (map (\<lambda>f. map (Pair f) (rows f)) fs))"
proof (induction fs)
  case Nil
  then show ?case by simp
next
  case (Cons f fs)
  have "sorted_wrt (\<lambda>a b. date (fst b) \<le> date (fst a)) (map (Pair f) rs)"
    for rs :: "'r list"
    by (induction rs) auto
  with Cons show ?case by (auto simp: sorted_wrt_append)
qed

lemma results_sorted:
  assumes "sorted_wrt (\<lambda>a b. date b \<le> date a) (log_files X w p)"
  shows "sorted_wrt (\<lambda>a b. r_date b \<le> r_date a) (results X q st w p)"
proof -
  have "sorted_wrt (\<lambda>a b. date (fst b) \<le> date (fst a)) (corpus X w p)"
    unfolding corpus_def using assms by (rule corpus_sorted)
  then have "sorted_wrt (\<lambda>a b. date (fst b) \<le> date (fst a))
               (filter (\<lambda>e. sublist (lower X q) (lower X (flat_text (snd (snd e))))) (corpus X w p))"
    by (rule sorted_wrt_filter)
  then show ?thesis
    by (simp add: results_def search_irc_logs_def scan_files_results corpus_def
        sorted_wrt_map result_of_def)
qed

text \<open>
  The index keeps every name of the resolver that carries a date token, as often as the
  resolver returns it, and no other name; the date of a file is the date in its name.
\<close>

lemma LogFileIndex_names:
  "map filename (List.map_filter
      (\<lambda>n. map_option (\<lambda>d. \<lparr>filename = n, date = d, link = link_of n\<rparr>) (DATE_REGEXP_match n)) ns)
   = filter (\<lambda>n. DATE_REGEXP_match n \<noteq> None) ns"
  by (induction ns) (auto simp: List.map_filter_def)

lemma log_files_index_kept:
  "mset (map filename (log_files (X\<lparr>find_log_files := LogFileIndex resolver link_of\<rparr>) w p)) =
   mset (filter (\<lambda>n. DATE_REGEXP_match n \<noteq> None)
           (resolver (or_default w (DEFAULT_LOGFILE_PATH X))
                     (or_default p DEFAULT_LOGFILE_PATTERN)))"
proof -
  let ?ns = "resolver (or_default w (DEFAULT_LOGFILE_PATH X)) (or_default p DEFAULT_LOGFILE_PATTERN)"
  let ?fs = "List.map_filter
      (\<lambda>n. map_option (\<lambda>d. \<lparr>filename = n, date = d, link = link_of n\<rparr>) (DATE_REGEXP_match n)) ?ns"
  have "mset (map filename (rev (sort_key date ?fs))) = mset (map filename ?fs)"
    by simp
  then show ?thesis
    by (simp add: log_files_def LogFileIndex_def LogFileIndex_names)
qed

lemma log_files_index_dated:
  "list_all (\<lambda>f. DATE_REGEXP_match (filename f) = Some (date f))
     (log_files (X\<lparr>find_log_files := LogFileIndex resolver link_of\<rparr>) w p)"
proof -
  have "list_all (\<lambda>f. DATE_REGEXP_match (filename f) = Some (date f)) (List.map_filter
      (\<lambda>n. map_option (\<lambda>d. \<lparr>filename = n, date = d, link = link_of n\<rparr>) (DATE_REGEXP_match n)) ns)"
    for ns
    by (induction ns) (auto simp: List.map_filter_def)
  then show ?thesis
    by (simp add: log_files_def LogFileIndex_def list_all_iff)
qed

text \<open>
  Claim C2, as amended, with \<open>find_log_files\<close> as the specification describes it. For every
  directory and pattern, and for every list of names the file-set resolver returns, in any
  order, the files that \<open>search_irc_logs\<close> goes through are ordered newest date first, not
  strictly: they are all the names of the resolver that carry a date token, each as often
  as the resolver returns it, also when several carry the same date, each with the date in
  its name, and files of one date stand next to each other. So are the results: a result
  from a more recent file is yielded before any result from an older file.
\<close>

theorem files_newest_first:
  "sorted_wrt (\<lambda>a b. date b \<le> date a)
     (log_files (X\<lparr>find_log_files := LogFileIndex resolver link_of\<rparr>) w p)
   \<and> mset (map filename (log_files (X\<lparr>find_log_files := LogFileIndex resolver link_of\<rparr>) w p)) =
       mset (filter (\<lambda>n. DATE_REGEXP_match n \<noteq> None)
               (resolver (or_default w (DEFAULT_LOGFILE_PATH X))
                         (or_default p DEFAULT_LOGFILE_PATTERN)))
   \<and> list_all (\<lambda>f. DATE_REGEXP_match (filename f) = Some (date f))
         (log_files (X\<lparr>find_log_files := LogFileIndex resolver link_of\<rparr>) w p)
   \<and> sorted_wrt (\<lambda>a b. r_date b \<le> r_date a)
     (results (X\<lparr>find_log_files := LogFileIndex resolver link_of\<rparr>) q st w p)"
  using log_files_index_sorted log_files_index_kept log_files_index_dated results_sorted
  by blast

theorem files_newest_first_witness:
  "map filename
     (log_files (demo\<lparr>find_log_files := LogFileIndex unsorted_resolver (\<lambda>n. n)\<rparr>) None None)
     = [''c.2024-01-03.log'', ''b.2024-01-02.log'', ''a.2024-01-01.log'']
   \<and> sorted_wrt (\<lambda>a b. date b \<le> date a)
     (log_files (demo\<lparr>find_log_files := LogFileIndex unsorted_resolver (\<lambda>n. n)\<rparr>) None None)
   \<and> mset (map filename
       (log_files (demo\<lparr>find_log_files := LogFileIndex same_day_resolver (\<lambda>n. n)\<rparr>) None None))
     = mset [''a.2024-01-01.log'', ''b.2024-01-01.log'']"
proof -
  have a: "map filename
     (log_files (demo\<lparr>find_log_files := LogFileIndex unsorted_resolver (\<lambda>n. n)\<rparr>) None None)
     = [''c.2024-01-03.log'', ''b.2024-01-02.log'', ''a.2024-01-01.log'']"
    by (simp add: log_files_def LogFileIndex_def unsorted_resolver_def List.map_filter_def
        is_digit_def number_def digit_value_def)
  have d: "filter (\<lambda>n. DATE_REGEXP_match n \<noteq> None) [''a.2024-01-01.log'', ''b.2024-01-01.log'']
           = [''a.2024-01-01.log'', ''b.2024-01-01.log'']"
    by (simp add: is_digit_def number_def digit_value_def)
  from files_newest_first[where X = demo and resolver = unsorted_resolver
      and link_of = "\<lambda>n. n" and w = None and p = None]
  have b: "sorted_wrt (\<lambda>a b. date b \<le> date a)
     (log_files (demo\<lparr>find_log_files := LogFileIndex unsorted_resolver (\<lambda>n. n)\<rparr>) None None)"
    by blast
  from files_newest_first[where X = demo and resolver = same_day_resolver
      and link_of = "\<lambda>n. n" and w = None and p = None]
  have "mset (map filename
       (log_files (demo\<lparr>find_log_files := LogFileIndex same_day_resolver (\<lambda>n. n)\<rparr>) None None))
     = mset (filter (\<lambda>n. DATE_REGEXP_match n \<noteq> None)
               (same_day_resolver (or_default None (DEFAULT_LOGFILE_PATH demo))
                                  (or_default None DEFAULT_LOGFILE_PATTERN)))"
    by blast
  then have c: "mset (map filename
       (log_files (demo\<lparr>find_log_files := LogFileIndex same_day_resolver (\<lambda>n. n)\<rparr>) None None))
     = mset [''a.2024-01-01.log'', ''b.2024-01-01.log'']"
    unfolding same_day_resolver_def d .
  from a b c show ?thesis by blast
qed

text \<open>
  Claim C2 as stated fails: two log files of the same date are both in the index, so the
  dates of the files are not strictly decreasing.
\<close>

theorem same_date_not_strictly_ordered:
  "\<not> sorted_wrt (\<lambda>a b. date b < date a)
     (log_files (demo\<lparr>find_log_files := LogFileIndex same_day_resolver (\<lambda>n. n)\<rparr>) None None)"
  by (simp add: log_files_def LogFileIndex_def same_day_resolver_def List.map_filter_def
      is_digit_def number_def digit_value_def)

section \<open>Properties of the presenter\<close>

lemma print_html_rows: "filter is_row (fst (print_html X nc r)) = fst (print_html X nc r)"
  by (cases "r_event r") (simp_all add: print_html_def Let_def)

lemma results_loop_rows:
  "filter is_row (fst (results_loop X d pr nc rs)) = fst (render_rows X nc rs)
   \<and> snd (snd (snd (results_loop X d pr nc rs))) = snd (render_rows X nc rs)"
  by (induction rs arbitrary: d pr nc) (simp_all add: Let_def print_html_rows)

lemma results_markup_rows:
  "filter is_row (fst (results_markup X rs)) = fst (render_rows X (NickColourizer X) rs)
   \<and> snd (results_markup X rs) = snd (render_rows X (NickColourizer X) rs)"
  by (simp add: results_markup_def Let_def results_loop_rows)

text \<open>
  Claim C5, as amended. The formatter of \<open>print_search_results\<close> has one colourizer,
  made before the first result, and every result is rendered with it in turn, whatever
  its date: the rows of the page are the rows of the results rendered one after the other
  from a new colourizer, and the colourizer of the returned formatter is the one after the
  last result. The colour assignments persist within a date group and across the date
  groups; nothing resets them at a date boundary.
\<close>

theorem colourizer_kept_across_dates:
  "filter is_row (fst (print_search_results X q w p)) =
     fst (render_rows X (NickColourizer X) (results X q (Some SearchStats_new) w p))
   \<and> snd (print_search_results X q w p) =
     snd (render_rows X (NickColourizer X) (results X q (Some SearchStats_new) w p))"
  by (simp add: print_search_results_def Let_def page_top_def results_markup_rows results_def)

lemma nesting_append:
  "nesting st (a @ b) = (case nesting st a of None \<Rightarrow> None | Some st' \<Rightarrow> nesting st' b)"
  by (induction st a rule: nesting.induct) (auto split: list.splits markup.splits)


lemma nesting_li_open:
  "nesting (UL # st) (Print (li_open X r) # os) = nesting (LI # UL # st) os"
  by (simp add: li_open_def)

lemma nesting_ul_open: "nesting [] (Print ul_open # os) = nesting [UL] os"
  by (simp add: ul_open_def)

lemma nesting_li_close: "nesting (LI # st) (Print ''  </li>'' # os) = nesting st os"
  by simp

lemma nesting_ul_close: "nesting (UL # st) (Print ''</ul>'' # os) = nesting st os"
  by simp













subsection \<open>The demo corpus, searched\<close>


lemma demo_log_files: "log_files demo None None = [day2, day1]"
  by (simp add: log_files_def or_default_def demo_def DEFAULT_LOGFILE_PATTERN_def)

lemma demo_parse:
  "parse_log_file demo ''/logs/chan.2024-01-02.log'' =
     [(''09:00'', Comment ''bob'' ''hello ALICE''),
      (''09:30'', NickChange ''bob is now known as rob'' ''bob'' ''rob'')]"
  "parse_log_file demo ''/logs/chan.2024-01-01.log'' =
     [(''10:00'', Comment ''alice'' ''Hello world''),
      (''10:05'', Other ''JOIN'' ''bob has joined'')]"
  by (simp_all add: parse_log_file_def demo_def demo_files_def demo_rows_def)

lemma demo_search_all:
  "map fst (fst (search_irc_logs demo [] (Some SearchStats_new) None None)) =
     [\<lparr>r_filename = ''/logs/chan.2024-01-02.log'', r_link = ''chan.2024-01-02.log.html'',
        r_date = (2024, 1, 2), r_time = ''09:00'', r_event = Comment ''bob'' ''hello ALICE''\<rparr>,
      \<lparr>r_filename = ''/logs/chan.2024-01-02.log'', r_link = ''chan.2024-01-02.log.html'',
        r_date = (2024, 1, 2), r_time = ''09:30'',
        r_event = NickChange ''bob is now known as rob'' ''bob'' ''rob''\<rparr>,
      \<lparr>r_filename = ''/logs/chan.2024-01-01.log'', r_link = ''chan.2024-01-01.log.html'',
        r_date = (2024, 1, 1), r_time = ''10:00'', r_event = Comment ''alice'' ''Hello world''\<rparr>,
      \<lparr>r_filename = ''/logs/chan.2024-01-01.log'', r_link = ''chan.2024-01-01.log.html'',
        r_date = (2024, 1, 1), r_time = ''10:05'', r_event = Other ''JOIN'' ''bob has joined''\<rparr>]"
  by (simp add: search_irc_logs_def demo_log_files demo_parse demo_lower Let_def
      SearchStats_new_def day1_def day2_def)



lemma demo_colourizer:
  "NickColourizer demo = []" "nick_colour_getitem demo = demo_getitem"
  "nick_colour_change demo = demo_change" "escape demo = (\<lambda>s. s)" "quote demo = (\<lambda>s. s)"
  by (simp_all add: demo_def)


text \<open>
  Claim C5 as stated fails. In the page for the empty query on the demo corpus, \<open>bob\<close>
  speaks on the newer day and \<open>alice\<close> on the older day: \<open>alice\<close> gets the second colour,
  because \<open>bob\<close> has the first, where a colourizer that is reset at the date boundary
  gives her the first.
\<close>

theorem colours_not_reset_per_date:
  "filter is_row (fst (print_search_results demo [] None None))
     \<noteq> rows_reset_per_date demo (results demo [] (Some SearchStats_new) None None)"
proof -
  let ?rs = "results demo [] (Some SearchStats_new) None None"
  have l: "filter is_row (fst (print_search_results demo [] None None)) =
           fst (render_rows demo [] ?rs)"
    by (simp add: print_search_results_def Let_def page_top_def results_markup_rows results_def
        demo_colourizer)
  have a: "fst (render_rows demo [] ?rs) ! 2 =
           Nicktext ''10:00'' ''alice'' ''Hello world'' ''colour2'' ''chan.2024-01-01.log.html''"
    by (simp add: results_def demo_search_all print_html_def urlescape_def demo_colourizer
        demo_getitem_def demo_change_def Let_def show_nat.simps digit_char_def)
  have b: "rows_reset_per_date demo ?rs ! 2 =
           Nicktext ''10:00'' ''alice'' ''Hello world'' ''colour1'' ''chan.2024-01-01.log.html''"
    by (simp add: results_def demo_search_all rows_reset_per_date_def print_html_def urlescape_def
        demo_colourizer demo_getitem_def demo_change_def Let_def show_nat.simps digit_char_def)
  show ?thesis unfolding l using a b by auto
qed

end
